theory Spec2Isabelle
  imports Complex_Main "HOL-Library.Multiset" "HOL-Library.Log_Nat"
begin

section \<open>Data model of \<open>app.py\<close>: data frames on a heap\<close>

text \<open>
  \<open>detect_fraud(df)\<close> receives a reference to a pandas data frame, reads its numeric
  columns, and assigns three columns to the very object it was given. The
  embedding therefore keeps data frames on a heap indexed by references, so that what the
  caller's object holds after the call can be read off.

  A frame is its number of rows and its named columns, in order; it is rectangular, every
  column holding one value per row. A column carries its dtype. A \<open>float64\<close> cell is a
  finite value, NaN, or one of the two infinities; a finite value is the real number it
  denotes. Strings are byte lists (UTF-8); the two status labels are only ever compared
  for equality. The exceptions are the Python exceptions the operations below can raise.
\<close>

datatype float64 = Finite real | NaN | PosInf | NegInf

datatype column =
    Int64 "int list"
  | Float64 "float64 list"
  | Object "string list"
  | Categorical "string option list"

record dataframe =
  index_len :: nat
  columns :: "(string \<times> column) list"

type_synonym ref = nat
type_synonym heap = "ref \<Rightarrow> dataframe"

datatype exn = ValueError | KeyError | TypeError

fun col_len :: "column \<Rightarrow> nat" where
  "col_len (Int64 xs) = length xs"
| "col_len (Float64 xs) = length xs"
| "col_len (Object xs) = length xs"
| "col_len (Categorical xs) = length xs"

text \<open>The values of a numeric column as floats; \<open>None\<close> for the other dtypes.\<close>

fun numeric_values :: "column \<Rightarrow> float64 list option" where
  "numeric_values (Int64 xs) = Some (map (\<lambda>k. Finite (of_int k)) xs)"
| "numeric_values (Float64 xs) = Some xs"
| "numeric_values (Object xs) = None"
| "numeric_values (Categorical xs) = None"

definition is_number :: "column \<Rightarrow> bool" where
  "is_number c = (numeric_values c \<noteq> None)"

subsection \<open>The pandas and numpy operations the function calls\<close>

text \<open>\<open>df.select_dtypes(include=[np.number])\<close>: a new frame holding the numeric columns, in order.\<close>

definition select_dtypes_number :: "dataframe \<Rightarrow> dataframe" where
  "select_dtypes_number df = df\<lparr>columns := filter (\<lambda>kc. is_number (snd kc)) (columns df)\<rparr>"

text \<open>\<open>df[k]\<close>: the column named \<open>k\<close>, or \<open>KeyError\<close>.\<close>

definition getitem :: "dataframe \<Rightarrow> string \<Rightarrow> exn + column" where
  "getitem df k = (case map_of (columns df) k of None \<Rightarrow> Inl KeyError | Some c \<Rightarrow> Inr c)"

text \<open>
  \<open>df[k] = c\<close>: an existing column of that name is replaced where it stands, a new name is
  appended on the right; values of the wrong length are refused.
\<close>

fun setitem_cols :: "(string \<times> column) list \<Rightarrow> string \<Rightarrow> column \<Rightarrow> (string \<times> column) list" where
  "setitem_cols [] k c = [(k, c)]"
| "setitem_cols ((k', c') # kcs) k c =
     (if k' = k then (k, c) # kcs else (k', c') # setitem_cols kcs k c)"

definition setitem :: "dataframe \<Rightarrow> string \<Rightarrow> column \<Rightarrow> exn + dataframe" where
  "setitem df k c =
     (if col_len c \<noteq> index_len df then Inl ValueError
      else Inr (df\<lparr>columns := setitem_cols (columns df) k c\<rparr>))"

text \<open>\<open>np.rint\<close>: the nearest integer, a tie going to the even one.\<close>

definition rint :: "real \<Rightarrow> real" where
  "rint x =
     (let f = \<lfloor>x\<rfloor>; r = x - of_int f
      in of_int (if r < 1 / 2 then f
                 else if 1 / 2 < r then f + 1
                 else if even f then f else f + 1))"

text \<open>
  Arithmetic on \<open>float64\<close>. The result of an operation is the exact result rounded to the
  nearest value with 53 significant bits, a tie going to the even one. \<open>expo x\<close> is the
  binary exponent of \<open>x\<close>, the integer \<open>e\<close> with \<open>2 ^ e \<le> \<bar>x\<bar> < 2 ^ (e + 1)\<close>,
  computed from the bit length of the integer part (of the reciprocal, below one); the
  spacing of the representable values around \<open>x\<close> is \<open>2 ^ (e - 52)\<close>, and \<open>2 ^ - 1074\<close> in
  the subnormal range. The values the function computes with are decision values between
  \<open>-1\<close> and \<open>1\<close>, scaled by a hundred, so the overflow to infinity is out of reach and
  left out.
\<close>

definition expo :: "real \<Rightarrow> int" where
  "expo x =
     (if 1 \<le> \<bar>x\<bar> then int (floorlog 2 (nat \<lfloor>\<bar>x\<bar>\<rfloor>)) - 1
      else - int (floorlog 2 (nat (\<lceil>1 / \<bar>x\<bar>\<rceil> - 1))))"

definition pow2 :: "int \<Rightarrow> real" where
  "pow2 e = (if 0 \<le> e then 2 ^ nat e else 1 / 2 ^ nat (- e))"

definition fl :: "real \<Rightarrow> real" where
  "fl x =
     (if x = 0 then 0
      else let q = pow2 (max (expo x - 52) (- 1074)) in rint (x / q) * q)"

definition fmul :: "real \<Rightarrow> real \<Rightarrow> real" where
  "fmul x y = fl (x * y)"

definition fdiv :: "real \<Rightarrow> real \<Rightarrow> real" where
  "fdiv x y = fl (x / y)"

text \<open>
  \<open>np.round(x, d)\<close> for \<open>d > 0\<close>: multiply by \<open>10 ^ d\<close>, round to the nearest integer,
  divide by \<open>10 ^ d\<close>, each step a \<open>float64\<close> operation.
\<close>

definition np_round :: "real \<Rightarrow> nat \<Rightarrow> real" where
  "np_round x d = fdiv (rint (fmul x (10 ^ d))) (10 ^ d)"

text \<open>
  \<open>pd.cut(xs, bins, labels=labels)\<close> with the defaults \<open>right=True\<close>,
  \<open>include_lowest=False\<close>: the label of the half-open interval \<open>(lo, hi]\<close> that holds the
  value, and a missing value (\<open>None\<close>) when no interval does, as for NaN and the
  infinities. A non-numeric column is a \<open>TypeError\<close>.
\<close>

fun cut_label :: "real list \<Rightarrow> string list \<Rightarrow> real \<Rightarrow> string option" where
  "cut_label (lo # hi # bs) (l # ls) x =
     (if lo < x \<and> x \<le> hi then Some l else cut_label (hi # bs) ls x)"
| "cut_label _ _ _ = None"

fun cut_float :: "real list \<Rightarrow> string list \<Rightarrow> float64 \<Rightarrow> string option" where
  "cut_float bins labels (Finite x) = cut_label bins labels x"
| "cut_float bins labels NaN = None"
| "cut_float bins labels PosInf = None"
| "cut_float bins labels NegInf = None"

definition pd_cut :: "column \<Rightarrow> real list \<Rightarrow> string list \<Rightarrow> exn + column" where
  "pd_cut c bins labels =
     (case numeric_values c of
        None \<Rightarrow> Inl TypeError
      | Some xs \<Rightarrow> Inr (Categorical (map (cut_float bins labels) xs)))"

text \<open>\<open>np.where(preds == -1, a, b)\<close>.\<close>

definition np_where_eq_m1 :: "int list \<Rightarrow> string \<Rightarrow> string \<Rightarrow> string list" where
  "np_where_eq_m1 preds a b = map (\<lambda>p. if p = - 1 then a else b) preds"

text \<open>
  \<open>np.percentile(a, q)\<close> with the default linear interpolation: position
  \<open>q / 100 * (n - 1)\<close> in the sorted values, interpolated between its two neighbours.
  The estimator calls it on the scores of a validated array, which has at least one row.
\<close>

definition percentile :: "real list \<Rightarrow> real \<Rightarrow> real" where
  "percentile a q =
     (let s = sort a; n = length a;
          pos = q / 100 * real (n - 1);
          lo = nat \<lfloor>pos\<rfloor>;
          hi = min (lo + 1) (n - 1)
      in s ! lo + (pos - real lo) * (s ! hi - s ! lo))"

subsection \<open>The estimator: scikit-learn's \<open>IsolationForest\<close>\<close>

text \<open>
  The estimator is library code. Its randomised part, drawing the samples, growing the
  trees and averaging the path lengths, is a parameter of the model: \<open>grow g rows x\<close> is
  the normalised anomaly score that the forest grown from \<open>rows\<close> gives to the row \<open>x\<close>,
  when numpy's global generator is in state \<open>g\<close>. The function builds
  \<open>IsolationForest(contamination=0.1)\<close> and passes no \<open>random_state\<close>, so the global
  generator is where the randomness comes from. The scores, the offset and the decision
  values the estimator returns are taken as the reals they denote. What the estimator does
  around the forest is modelled as the library documents it:
  \<^item> the input is validated first: a column that is not numeric, or an array with no
    row or no column, is a \<open>ValueError\<close>; the validation of this estimator does not ask
    for finite values, so NaN and the infinities pass and reach the forest;
  \<^item> \<open>score_samples\<close> is the opposite of the anomaly score;
  \<^item> with a numeric \<open>contamination\<close>, the attribute \<open>offset_\<close> (the field \<open>offset\<close>
    below) is the percentile of the training scores at \<open>100 * contamination\<close>;
  \<^item> \<open>decision_function = score_samples - offset_\<close>;
  \<^item> \<open>predict\<close> is \<open>-1\<close> where the decision function is negative and \<open>1\<close> elsewhere;
  \<^item> \<open>fit_predict(X) = fit(X).predict(X)\<close>.
\<close>

type_synonym rng = nat
type_synonym forest = "float64 list \<Rightarrow> real"
type_synonym grower = "rng \<Rightarrow> float64 list list \<Rightarrow> forest"

record iforest =
  contamination :: real
  anomaly :: forest
  offset :: real

text \<open>The frame as the two-dimensional array the estimator works on: one list per row.\<close>

definition col_values :: "column \<Rightarrow> float64 list" where
  "col_values c = (case numeric_values c of None \<Rightarrow> [] | Some xs \<Rightarrow> xs)"

definition rows_of :: "dataframe \<Rightarrow> float64 list list" where
  "rows_of X = map (\<lambda>i. map (\<lambda>kc. col_values (snd kc) ! i) (columns X)) [0..<index_len X]"

definition check_array :: "dataframe \<Rightarrow> exn + float64 list list" where
  "check_array X =
     (if \<not> list_all (\<lambda>kc. is_number (snd kc)) (columns X) then Inl ValueError
      else if index_len X = 0 \<or> columns X = [] then Inl ValueError
      else Inr (rows_of X))"

definition score_samples :: "iforest \<Rightarrow> float64 list list \<Rightarrow> real list" where
  "score_samples m rows = map (\<lambda>x. - anomaly m x) rows"

definition fit :: "grower \<Rightarrow> rng \<Rightarrow> real \<Rightarrow> dataframe \<Rightarrow> exn + iforest" where
  "fit grow g c X =
     (case check_array X of
        Inl e \<Rightarrow> Inl e
      | Inr rows \<Rightarrow>
          (let m = \<lparr>contamination = c, anomaly = grow g rows, offset = 0\<rparr>
           in Inr (m\<lparr>offset := percentile (score_samples m rows) (100 * c)\<rparr>)))"

definition decision_function :: "iforest \<Rightarrow> dataframe \<Rightarrow> exn + real list" where
  "decision_function m X =
     (case check_array X of
        Inl e \<Rightarrow> Inl e
      | Inr rows \<Rightarrow> Inr (map (\<lambda>s. s - offset m) (score_samples m rows)))"

definition predict :: "iforest \<Rightarrow> dataframe \<Rightarrow> exn + int list" where
  "predict m X =
     (case decision_function m X of
        Inl e \<Rightarrow> Inl e
      | Inr ds \<Rightarrow> Inr (map (\<lambda>d. if d < 0 then - 1 else 1) ds))"

definition fit_predict :: "grower \<Rightarrow> rng \<Rightarrow> real \<Rightarrow> dataframe \<Rightarrow> exn + iforest \<times> int list" where
  "fit_predict grow g c X =
     (case fit grow g c X of
        Inl e \<Rightarrow> Inl e
      | Inr m \<Rightarrow> (case predict m X of Inl e \<Rightarrow> Inl e | Inr preds \<Rightarrow> Inr (m, preds)))"

section \<open>\<open>detect_fraud\<close>\<close>

text \<open>
  The status labels, as UTF-8: a red circle (U+1F534) or a green circle (U+1F7E2), a
  space, and the word.
\<close>

definition Suspicious :: string where
  "Suspicious = [CHR 0xF0, CHR 0x9F, CHR 0x94, CHR 0xB4] @ '' Suspicious''"

definition Normal :: string where
  "Normal = [CHR 0xF0, CHR 0x9F, CHR 0x9F, CHR 0xA2] @ '' Normal''"

text \<open>
  The function, statement by statement. Each assignment to \<open>df[...]\<close> updates the object
  behind the reference the caller passed; an exception leaves the heap as the statements
  before it made it. The result is the final heap and either the exception or the returned
  reference, which is the argument itself. The risk score of a row is its decision value
  times \<open>-100\<close>, a \<open>float64\<close> multiplication, rounded by \<open>np.round\<close>.
\<close>

definition detect_fraud :: "grower \<Rightarrow> rng \<Rightarrow> heap \<Rightarrow> ref \<Rightarrow> heap \<times> (exn + ref)" where
  "detect_fraud grow g h df =
     (let df_numeric = select_dtypes_number (h df) in
      case fit_predict grow g (1 / 10) df_numeric of
        Inl e \<Rightarrow> (h, Inl e)
      | Inr (model, preds) \<Rightarrow>
      (case decision_function model df_numeric of
        Inl e \<Rightarrow> (h, Inl e)
      | Inr ds \<Rightarrow>
      (case setitem (h df) ''Risk Score''
              (Float64 (map (\<lambda>d. Finite (np_round (fmul d (- 100)) 2)) ds)) of
        Inl e \<Rightarrow> (h, Inl e)
      | Inr d1 \<Rightarrow>
      (let h1 = h(df := d1) in
       case getitem (h1 df) ''Risk Score'' of
        Inl e \<Rightarrow> (h1, Inl e)
      | Inr risk \<Rightarrow>
      (case pd_cut risk [- 1, 30, 60, 9999] [''Low'', ''Medium'', ''High''] of
        Inl e \<Rightarrow> (h1, Inl e)
      | Inr sev \<Rightarrow>
      (case setitem (h1 df) ''Severity'' sev of
        Inl e \<Rightarrow> (h1, Inl e)
      | Inr d2 \<Rightarrow>
      (let h2 = h1(df := d2) in
       case setitem (h2 df) ''Status'' (Object (np_where_eq_m1 preds Suspicious Normal)) of
        Inl e \<Rightarrow> (h2, Inl e)
      | Inr d3 \<Rightarrow> (h2(df := d3), Inr df))))))))"

text \<open>The two counters of the dashboard: \<open>(result["Status"] == label).sum()\<close>.\<close>

definition count_status :: "dataframe \<Rightarrow> string \<Rightarrow> exn + nat" where
  "count_status result label =
     (case getitem result ''Status'' of
        Inl e \<Rightarrow> Inl e
      | Inr (Object xs) \<Rightarrow> Inr (length (filter (\<lambda>s. s = label) xs))
      | Inr (Int64 xs) \<Rightarrow> Inr 0
      | Inr (Float64 xs) \<Rightarrow> Inr 0
      | Inr (Categorical xs) \<Rightarrow> Inr 0)"

section \<open>Reading the results\<close>

text \<open>
  The quantities the statements below speak about, each computed from the model above:
  the normalised anomaly score of every row of the frame (the forest is grown from the
  numeric columns of the frame and applied to the same rows), and the threshold the
  estimator derives from them, the opposite of its \<open>offset_\<close> for \<open>contamination = 0.1\<close>.
  \<open>ranked\<close> lists the scores from the most anomalous row down.
\<close>

definition anomaly_scores :: "grower \<Rightarrow> rng \<Rightarrow> dataframe \<Rightarrow> real list" where
  "anomaly_scores grow g df =
     (let rows = rows_of (select_dtypes_number df) in map (grow g rows) rows)"

definition threshold :: "grower \<Rightarrow> rng \<Rightarrow> dataframe \<Rightarrow> real" where
  "threshold grow g df = - percentile (map uminus (anomaly_scores grow g df)) 10"

definition ranked :: "grower \<Rightarrow> rng \<Rightarrow> dataframe \<Rightarrow> real list" where
  "ranked grow g df = rev (sort (anomaly_scores grow g df))"

definition risk_column :: "grower \<Rightarrow> rng \<Rightarrow> dataframe \<Rightarrow> real list" where
  "risk_column grow g df =
     map (\<lambda>s. np_round (fmul (threshold grow g df - s) (- 100)) 2) (anomaly_scores grow g df)"

definition severity_column :: "grower \<Rightarrow> rng \<Rightarrow> dataframe \<Rightarrow> string option list" where
  "severity_column grow g df =
     map (cut_label [- 1, 30, 60, 9999] [''Low'', ''Medium'', ''High'']) (risk_column grow g df)"

definition status_column :: "grower \<Rightarrow> rng \<Rightarrow> dataframe \<Rightarrow> string list" where
  "status_column grow g df =
     map (\<lambda>s. if threshold grow g df < s then Suspicious else Normal) (anomaly_scores grow g df)"

definition annotated :: "grower \<Rightarrow> rng \<Rightarrow> dataframe \<Rightarrow> dataframe" where
  "annotated grow g df =
     df\<lparr>columns :=
       setitem_cols
         (setitem_cols
           (setitem_cols (columns df) ''Risk Score''
              (Float64 (map Finite (risk_column grow g df))))
           ''Severity'' (Categorical (severity_column grow g df)))
         ''Status'' (Object (status_column grow g df))\<rparr>"



subsection \<open>Sample inputs\<close>

text \<open>
  A five-row frame with one text column and one integer column, and a forest that scores
  the four everyday amounts 0.45 and the large one 0.75 (a missing amount counts as an
  everyday one). The same frame with other texts. A frame with a text column only. The
  five-row frame with a float column in which one amount is NaN and one is infinite.
  A thousand-row frame whose rows all score differently.
\<close>

definition demo_frame :: dataframe where
  "demo_frame = \<lparr>index_len = 5, columns =
     [(''account'', Object [''a1'', ''a2'', ''a3'', ''a4'', ''a5'']),
      (''amount'', Int64 [12, 15, 11, 14, 5000])]\<rparr>"

definition demo_frame' :: dataframe where
  "demo_frame' = \<lparr>index_len = 5, columns =
     [(''account'', Object [''b1'', ''b2'', ''b3'', ''b4'', ''b5'']),
      (''amount'', Int64 [12, 15, 11, 14, 5000])]\<rparr>"

definition text_frame :: dataframe where
  "text_frame = \<lparr>index_len = 2, columns = [(''account'', Object [''a1'', ''a2''])]\<rparr>"

definition nan_frame :: dataframe where
  "nan_frame = \<lparr>index_len = 5, columns =
     [(''account'', Object [''a1'', ''a2'', ''a3'', ''a4'', ''a5'']),
      (''amount'', Float64 [Finite 12, NaN, Finite 11, Finite 14, PosInf])]\<rparr>"

fun demo_score :: "float64 \<Rightarrow> real" where
  "demo_score (Finite v) = (if 1000 < v then 3 / 4 else 9 / 20)"
| "demo_score NaN = 9 / 20"
| "demo_score PosInf = 3 / 4"
| "demo_score NegInf = 3 / 4"

definition demo_grow :: grower where
  "demo_grow g rows x = demo_score (hd x)"

definition demo_heap :: heap where
  "demo_heap = (\<lambda>r. \<lparr>index_len = 0, columns = []\<rparr>)
     (0 := demo_frame, 1 := demo_frame', 2 := text_frame, 4 := nan_frame)"

definition big_frame :: dataframe where
  "big_frame = \<lparr>index_len = 1000, columns = [(''amount'', Int64 (map int [0..<1000]))]\<rparr>"

fun big_score :: "float64 \<Rightarrow> real" where
  "big_score (Finite v) = (v + 1) / 1001"
| "big_score NaN = 1 / 2"
| "big_score PosInf = 1 / 2"
| "big_score NegInf = 1 / 2"

definition big_grow :: grower where
  "big_grow g rows x = big_score (hd x)"

definition big_heap :: heap where
  "big_heap = (\<lambda>r. big_frame)"

section \<open>Auxiliary facts\<close>

text \<open>
  Rounding to \<open>float64\<close>: the exponent is the one the definition promises, integers
  below \<open>2 ^ 53\<close> are exact, and the sign is kept.
\<close>

lemma expo_bounds:
  assumes "x \<noteq> 0"
  shows "pow2 (expo x) \<le> \<bar>x\<bar> \<and> \<bar>x\<bar> < pow2 (expo x + 1)"
proof (cases "1 \<le> \<bar>x\<bar>")
  case True
  define n where "n = nat \<lfloor>\<bar>x\<bar>\<rfloor>"
  have n: "0 < n" using True by (simp add: n_def)
  from floorlog_bounds[OF n, of 2]
  have lo: "2 ^ (floorlog 2 n - 1) \<le> n" and hi: "n < 2 ^ floorlog 2 n" by simp_all
  have fpos: "0 < floorlog 2 n" using n by (simp add: floorlog_def)
  have nx: "real n \<le> \<bar>x\<bar>" "\<bar>x\<bar> < real n + 1"
    using True by (simp_all add: n_def)
  have "real (2 ^ (floorlog 2 n - 1)) \<le> real n" using lo by (simp only: of_nat_le_iff)
  then have "(2::real) ^ (floorlog 2 n - 1) \<le> real n" by simp
  then have A: "2 ^ (floorlog 2 n - 1) \<le> \<bar>x\<bar>" using nx by linarith
  have "n + 1 \<le> 2 ^ floorlog 2 n" using hi by simp
  then have "real (n + 1) \<le> real (2 ^ floorlog 2 n)" by (simp only: of_nat_le_iff)
  then have "real n + 1 \<le> (2::real) ^ floorlog 2 n" by simp
  then have B: "\<bar>x\<bar> < 2 ^ floorlog 2 n" using nx by linarith
  have e: "expo x = int (floorlog 2 n) - 1" using True by (simp add: expo_def n_def)
  have "nat (int (floorlog 2 n) - 1) = floorlog 2 n - 1" by simp
  with A B fpos show ?thesis by (simp add: e pow2_def)
next
  case False
  define y where "y = 1 / \<bar>x\<bar>"
  have y: "1 < y" using False assms by (simp add: y_def)
  define m where "m = nat (\<lceil>y\<rceil> - 1)"
  have "1 < \<lceil>y\<rceil>" using y by (simp add: less_ceiling_iff)
  then have m: "0 < m" by (simp add: m_def)
  from floorlog_bounds[OF m, of 2]
  have lo: "2 ^ (floorlog 2 m - 1) \<le> m" and hi: "m < 2 ^ floorlog 2 m" by simp_all
  have fpos: "0 < floorlog 2 m" using m by (simp add: floorlog_def)
  have my: "real m < y" "y \<le> real m + 1"
    using \<open>1 < \<lceil>y\<rceil>\<close> by (simp_all add: m_def of_nat_nat) linarith+
  have "real (2 ^ (floorlog 2 m - 1)) \<le> real m" using lo by (simp only: of_nat_le_iff)
  then have "(2::real) ^ (floorlog 2 m - 1) \<le> real m" by simp
  then have A: "2 ^ (floorlog 2 m - 1) < y" using my by linarith
  have "m + 1 \<le> 2 ^ floorlog 2 m" using hi by simp
  then have "real (m + 1) \<le> real (2 ^ floorlog 2 m)" by (simp only: of_nat_le_iff)
  then have "real m + 1 \<le> (2::real) ^ floorlog 2 m" by simp
  then have B: "y \<le> 2 ^ floorlog 2 m" using my by linarith
  have xpos: "0 < \<bar>x\<bar>" using assms by simp
  have e: "expo x = - int (floorlog 2 m)" using False by (simp add: expo_def m_def y_def)
  have B': "1 / 2 ^ floorlog 2 m \<le> \<bar>x\<bar>"
    using B xpos by (simp add: y_def field_simps)
  have A': "\<bar>x\<bar> < 1 / 2 ^ (floorlog 2 m - 1)"
    using A xpos by (simp add: y_def field_simps)
  show ?thesis
  proof (cases "floorlog 2 m = 1")
    case True
    with A' B' show ?thesis by (simp add: e pow2_def)
  next
    case False
    with fpos have "1 < floorlog 2 m" by simp
    then have "nat (int (floorlog 2 m) - 1) = floorlog 2 m - 1" by simp
    with A' B' \<open>1 < floorlog 2 m\<close> show ?thesis by (simp add: e pow2_def)
  qed
qed

lemma rint_of_int: "rint (of_int k) = of_int k"
  by (simp add: rint_def)

lemma rint_nonneg: "0 \<le> x \<Longrightarrow> 0 \<le> rint x"
proof -
  assume "0 \<le> x"
  then have "0 \<le> \<lfloor>x\<rfloor>" by simp
  then show ?thesis by (simp add: rint_def Let_def)
qed


lemma pow2_pos: "0 < pow2 e"
  by (simp add: pow2_def)

lemma fl_nonneg:
  assumes "0 \<le> x"
  shows "0 \<le> fl x"
proof (cases "x = 0")
  case True
  then show ?thesis by (simp add: fl_def)
next
  case False
  let ?q = "pow2 (max (expo x - 52) (- 1074))"
  have q: "0 < ?q" by (rule pow2_pos)
  with assms have "0 \<le> x / ?q" by simp
  then have "0 \<le> rint (x / ?q)" by (rule rint_nonneg)
  with q have "0 \<le> rint (x / ?q) * ?q" by simp
  with False show ?thesis by (simp add: fl_def Let_def)
qed


lemma expo_int_le:
  assumes "k \<noteq> 0" and "\<bar>k\<bar> < 2 ^ 53"
  shows "expo (of_int k) - 52 \<le> 0"
proof -
  have one: "(1::real) \<le> \<bar>of_int k\<bar>"
    using assms(1) by (simp flip: of_int_abs add: of_int_1_le_iff)
  have "nat \<bar>k\<bar> < 2 ^ 53" using assms(2) by (simp add: nat_less_iff)
  then have "floorlog 2 (nat \<bar>k\<bar>) \<le> 53" by (intro floorlog_leI) simp_all
  moreover have "\<lfloor>\<bar>of_int k :: real\<bar>\<rfloor> = \<bar>k\<bar>" by (simp flip: of_int_abs)
  ultimately show ?thesis using one by (simp add: expo_def)
qed

lemma fl_of_int:
  assumes "\<bar>k\<bar> < 2 ^ 53"
  shows "fl (of_int k) = of_int k"
proof (cases "k = 0")
  case True
  then show ?thesis by (simp add: fl_def)
next
  case False
  define e where "e = max (expo (of_int k) - 52) (- 1074)"
  have e: "e \<le> 0" using expo_int_le[OF False assms] by (simp add: e_def)
  have q: "pow2 e = 1 / 2 ^ nat (- e)"
    using e by (cases "e = 0") (simp_all add: pow2_def)
  have "of_int k / pow2 e = (of_int (k * 2 ^ nat (- e)) :: real)"
    by (simp add: q)
  then have "rint (of_int k / pow2 e) = of_int (k * 2 ^ nat (- e))"
    by (simp only: rint_of_int)
  then have "rint (of_int k / pow2 e) * pow2 e = of_int k"
    by (simp add: q)
  then show ?thesis using False by (simp add: fl_def Let_def e_def)
qed

lemma np_round_nonneg: "0 \<le> x \<Longrightarrow> 0 \<le> np_round x d"
  by (simp add: np_round_def fdiv_def fmul_def fl_nonneg rint_nonneg)


lemma pow2_powr: "pow2 e = 2 powr (of_int e)"
  by (simp add: pow2_def powr_real_of_int inverse_eq_divide)

lemma pow2_mono: "a \<le> b \<Longrightarrow> pow2 a \<le> pow2 b"
  by (simp add: pow2_powr)

lemma expo_unique:
  assumes "pow2 e \<le> \<bar>x\<bar>" and "\<bar>x\<bar> < pow2 (e + 1)"
  shows "expo x = e"
proof -
  have x: "x \<noteq> 0" using assms(1) pow2_pos[of e] by auto
  from expo_bounds[OF x]
  have lo: "pow2 (expo x) \<le> \<bar>x\<bar>" and hi: "\<bar>x\<bar> < pow2 (expo x + 1)" by simp_all
  have "\<not> expo x < e"
  proof
    assume "expo x < e"
    then have "pow2 (expo x + 1) \<le> pow2 e" by (intro pow2_mono) simp
    with hi assms(1) show False by simp
  qed
  moreover have "\<not> e < expo x"
  proof
    assume "e < expo x"
    then have "pow2 (e + 1) \<le> pow2 (expo x)" by (intro pow2_mono) simp
    with lo assms(2) show False by simp
  qed
  ultimately show ?thesis by simp
qed

text \<open>Rounding a normal number whose exponent is known.\<close>

lemma fl_eval:
  assumes "pow2 e \<le> \<bar>x\<bar>" and "\<bar>x\<bar> < pow2 (e + 1)" and "- 1022 \<le> e"
    and "rint (x * pow2 (52 - e)) = m"
  shows "fl x = m * pow2 (e - 52)"
proof -
  have x: "x \<noteq> 0" using assms(1) pow2_pos[of e] by auto
  have e: "expo x = e" using assms(1,2) by (rule expo_unique)
  have mx: "max (e - 52) (- 1074) = e - 52" using assms(3) by simp
  have inv: "x / pow2 (e - 52) = x * pow2 (52 - e)"
    by (simp add: pow2_powr powr_diff field_simps)
  show ?thesis using x assms(4) by (simp add: fl_def Let_def e mx inv)
qed

lemma np_round_int:
  assumes "x * y = of_int k" and "\<bar>k\<bar> < 2 ^ 46"
  shows "np_round (fmul x y) 2 = of_int k"
proof -
  have a: "\<bar>k * 100\<bar> < 2 ^ 53" using assms(2) by (simp add: abs_mult)
  have b: "\<bar>k\<bar> < 2 ^ 53" using assms(2) by simp
  have p: "fmul x y = of_int k" using fl_of_int[OF b] assms(1) by (simp add: fmul_def)
  have "fmul (of_int k) (10 ^ 2) = of_int (k * 100)"
    using fl_of_int[OF a] by (simp add: fmul_def)
  then have "rint (fmul (of_int k) (10 ^ 2)) = of_int (k * 100)"
    by (simp only: rint_of_int)
  then have "np_round (of_int k) 2 = fl (of_int (k * 100) / 100)"
    by (simp add: np_round_def fdiv_def)
  also have "\<dots> = fl (of_int k)" by simp
  finally show ?thesis using fl_of_int[OF b] p by simp
qed

text \<open>
  Two decision values whose product with \<open>-100\<close> sits next to a rounding tie. For the
  \<open>float64\<close> nearest to \<open>-0.00025\<close> the product is the \<open>float64\<close> nearest to 0.025, a
  hundred times that is exactly 2.5, which rounds to 2, and the risk score is the
  \<open>float64\<close> nearest to 0.02. For the one nearest to \<open>-0.60005\<close> the scaled product is
  exactly 6000.5, which rounds to 6000, and the risk score is 60.
\<close>

lemma np_round_near_0_025:
  "fmul (- 1152921504606847 / 4611686018427387904) (- 100)
     = 3602879701896397 / 144115188075855872"
  "fmul (3602879701896397 / 144115188075855872) (10 ^ 2) = 5 / 2"
  "rint (5 / 2) = 2"
  "fdiv 2 (10 ^ 2) = 5764607523034235 / 288230376151711744"
  "np_round (fmul (- 1152921504606847 / 4611686018427387904) (- 100)) 2
     = 5764607523034235 / 288230376151711744"
proof -
  show a: "fmul (- 1152921504606847 / 4611686018427387904) (- 100)
     = 3602879701896397 / 144115188075855872"
    unfolding fmul_def
    by (subst fl_eval[where e = "- 6" and m = 7205759403792794])
      (simp_all add: pow2_def rint_def Let_def)
  show b: "fmul (3602879701896397 / 144115188075855872) (10 ^ 2) = 5 / 2"
    unfolding fmul_def
    by (subst fl_eval[where e = 1 and m = 5629499534213120])
      (simp_all add: pow2_def rint_def Let_def)
  show c: "rint (5 / 2) = 2" by (simp add: rint_def Let_def)
  show d: "fdiv 2 (10 ^ 2) = 5764607523034235 / 288230376151711744"
    unfolding fdiv_def
    by (subst fl_eval[where e = "- 6" and m = 5764607523034235])
      (simp_all add: pow2_def rint_def Let_def)
  show "np_round (fmul (- 1152921504606847 / 4611686018427387904) (- 100)) 2
     = 5764607523034235 / 288230376151711744"
    by (simp only: np_round_def a b c d)
qed

lemma np_round_near_60_005:
  "fmul (- 1351192478201833 / 2251799813685248) (- 100) = 527809561797591 / 8796093022208"
  "fmul (527809561797591 / 8796093022208) (10 ^ 2) = 12001 / 2"
  "rint (12001 / 2) = 6000"
  "fdiv 6000 (10 ^ 2) = 60"
  "np_round (fmul (- 1351192478201833 / 2251799813685248) (- 100)) 2 = 60"
proof -
  show a: "fmul (- 1351192478201833 / 2251799813685248) (- 100)
      = 527809561797591 / 8796093022208"
    unfolding fmul_def
    by (subst fl_eval[where e = 5 and m = 8444952988761456])
      (simp_all add: pow2_def rint_def Let_def)
  show b: "fmul (527809561797591 / 8796093022208) (10 ^ 2) = 12001 / 2"
    unfolding fmul_def
    by (subst fl_eval[where e = 12 and m = 6597619522469888])
      (simp_all add: pow2_def rint_def Let_def)
  show c: "rint (12001 / 2) = 6000" by (simp add: rint_def Let_def)
  show d: "fdiv 6000 (10 ^ 2) = 60"
    using fl_of_int[of 60] by (simp add: fdiv_def)
  show "np_round (fmul (- 1351192478201833 / 2251799813685248) (- 100)) 2 = 60"
    by (simp only: np_round_def a b c d)
qed

lemma map_of_setitem_cols_same: "map_of (setitem_cols kcs k c) k = Some c"
  by (induction kcs) auto

lemma map_of_setitem_cols_other:
  "k' \<noteq> k \<Longrightarrow> map_of (setitem_cols kcs k c) k' = map_of kcs k'"
  by (induction kcs) auto

lemma filter_setitem_cols:
  "(\<And>c'. \<not> Q (k, c')) \<Longrightarrow> filter Q (setitem_cols kcs k c) = filter Q kcs"
  by (induction kcs) auto

lemma check_array_select:
  "check_array (select_dtypes_number df) =
     (if index_len df = 0 \<or> columns (select_dtypes_number df) = [] then Inl ValueError
      else Inr (rows_of (select_dtypes_number df)))"
  by (simp add: check_array_def select_dtypes_number_def list_all_iff)

lemma length_anomaly_scores: "length (anomaly_scores grow g df) = index_len df"
  by (simp add: anomaly_scores_def Let_def rows_of_def select_dtypes_number_def)

lemma length_result_columns:
  "length (risk_column grow g df) = index_len df"
  "length (severity_column grow g df) = index_len df"
  "length (status_column grow g df) = index_len df"
  by (simp_all add: risk_column_def severity_column_def status_column_def length_anomaly_scores)

text \<open>The two ways the call can end.\<close>

lemma detect_fraud_fails:
  assumes "index_len (h df) = 0 \<or> columns (select_dtypes_number (h df)) = []"
  shows "detect_fraud grow g h df = (h, Inl ValueError)"
  using assms
  by (simp add: detect_fraud_def fit_predict_def fit_def check_array_select)

lemma detect_fraud_succeeds:
  assumes "index_len (h df) \<noteq> 0"
    and "columns (select_dtypes_number (h df)) \<noteq> []"
  shows "detect_fraud grow g h df = (h(df := annotated grow g (h df)), Inr df)"
proof -
  let ?X = "select_dtypes_number (h df)"
  let ?m = "\<lparr>contamination = 1 / 10, anomaly = grow g (rows_of ?X),
             offset = - threshold grow g (h df)\<rparr>"
  have chk: "check_array ?X = Inr (rows_of ?X)"
    using assms by (simp add: check_array_select)
  have ss: "score_samples ?m (rows_of ?X) = map uminus (anomaly_scores grow g (h df))"
    by (simp add: score_samples_def anomaly_scores_def Let_def)
  have fit: "fit grow g (1 / 10) ?X = Inr ?m"
    by (simp add: fit_def chk threshold_def score_samples_def anomaly_scores_def Let_def o_def)
  have dec: "decision_function ?m ?X =
      Inr (map (\<lambda>s. threshold grow g (h df) - s) (anomaly_scores grow g (h df)))"
    by (simp add: decision_function_def chk ss o_def)
  have prd: "fit_predict grow g (1 / 10) ?X =
      Inr (?m, map (\<lambda>s. if threshold grow g (h df) < s then - 1 else 1)
                 (anomaly_scores grow g (h df)))"
    by (simp add: fit_predict_def fit predict_def dec o_def)
  have risk: "map (\<lambda>d. Finite (np_round (fmul d (- 100)) 2))
      (map (\<lambda>s. threshold grow g (h df) - s) (anomaly_scores grow g (h df)))
      = map Finite (risk_column grow g (h df))"
    by (simp add: risk_column_def o_def)
  have cut: "map (cut_float [- 1, 30, 60, 9999] [''Low'', ''Medium'', ''High''] \<circ> Finite)
      (risk_column grow g (h df)) = severity_column grow g (h df)"
    by (simp add: severity_column_def o_def del: cut_label.simps)
  have status: "np_where_eq_m1
      (map (\<lambda>s. if threshold grow g (h df) < s then - 1 else 1) (anomaly_scores grow g (h df)))
      Suspicious Normal = status_column grow g (h df)"
    by (simp add: np_where_eq_m1_def status_column_def o_def if_distrib cong: if_cong)
  show ?thesis
    unfolding detect_fraud_def Let_def prd dec sum.case prod.case risk status
    by (simp add: setitem_def getitem_def pd_cut_def map_of_setitem_cols_same
        length_result_columns annotated_def cut del: cut_label.simps cut_float.simps)
qed

lemma detect_fraud_returns:
  assumes "detect_fraud grow g h df = (h', Inr r)"
  shows "r = df" and "h' = h(df := annotated grow g (h df))" and "index_len (h df) \<noteq> 0"
    and "columns (select_dtypes_number (h df)) \<noteq> []"
proof -
  have ok: "index_len (h df) \<noteq> 0 \<and> columns (select_dtypes_number (h df)) \<noteq> []"
  proof (rule ccontr)
    assume "\<not> (index_len (h df) \<noteq> 0 \<and> columns (select_dtypes_number (h df)) \<noteq> [])"
    then have "detect_fraud grow g h df = (h, Inl ValueError)"
      by (intro detect_fraud_fails) blast
    with assms show False by simp
  qed
  then show "index_len (h df) \<noteq> 0" and "columns (select_dtypes_number (h df)) \<noteq> []"
    by simp_all
  from ok have "detect_fraud grow g h df = (h(df := annotated grow g (h df)), Inr df)"
    by (simp add: detect_fraud_succeeds)
  with assms[symmetric]
  have "(h', Inr r :: exn + ref) = (h(df := annotated grow g (h df)), Inr df)"
    by (rule trans)
  then have "h' = h(df := annotated grow g (h df)) \<and> r = df"
    by (simp only: prod.inject sum.inject)
  then show "r = df" and "h' = h(df := annotated grow g (h df))" by blast+
qed

lemma getitem_annotated:
  "getitem (annotated grow g df) ''Risk Score''
     = Inr (Float64 (map Finite (risk_column grow g df)))"
  "getitem (annotated grow g df) ''Severity'' = Inr (Categorical (severity_column grow g df))"
  "getitem (annotated grow g df) ''Status'' = Inr (Object (status_column grow g df))"
  by (simp_all add: getitem_def annotated_def map_of_setitem_cols_same map_of_setitem_cols_other)

lemma map_Finite_eq: "map Finite xs = map Finite ys \<Longrightarrow> xs = ys"
proof -
  have "inj Finite" by (simp add: inj_def)
  then show "map Finite xs = map Finite ys \<Longrightarrow> xs = ys"
    by (simp add: inj_map_eq_map)
qed

lemma labels_differ: "Suspicious \<noteq> Normal"
  by (simp add: Suspicious_def Normal_def)

lemma two_label_count:
  assumes "\<forall>x \<in> set xs. x = a \<or> x = b" and "a \<noteq> b"
  shows "length (filter (\<lambda>s. s = a) xs) + length (filter (\<lambda>s. s = b) xs) = length xs"
  using assms by (induction xs) auto

text \<open>The run on the five-row sample.\<close>

lemma demo_scores: "anomaly_scores demo_grow g demo_frame = [9 / 20, 9 / 20, 9 / 20, 9 / 20, 3 / 4]"
proof -
  have "rows_of (select_dtypes_number demo_frame)
      = [[Finite 12], [Finite 15], [Finite 11], [Finite 14], [Finite 5000]]"
    by (simp add: rows_of_def select_dtypes_number_def demo_frame_def is_number_def
        col_values_def upt_rec)
  then show ?thesis by (simp add: anomaly_scores_def demo_grow_def)
qed

lemma demo_threshold: "threshold demo_grow g demo_frame = 63 / 100"
  by (simp add: threshold_def demo_scores percentile_def)

lemma np_round_sample:
  "np_round (fmul (9 / 50) (- 100)) 2 = - 18"
  "np_round (fmul (- (3 / 25)) (- 100)) 2 = 12"
  "np_round (fmul (- (1 / 20)) 100) 2 = - 5"
  "np_round (fmul (1 / 4) 100) 2 = 25"
  using np_round_int[of "9 / 50" "- 100" "- 18"] np_round_int[of "- (3 / 25)" "- 100" 12]
    np_round_int[of "- (1 / 20)" 100 "- 5"] np_round_int[of "1 / 4" 100 25]
  by simp_all

lemma demo_risk: "risk_column demo_grow g demo_frame = [- 18, - 18, - 18, - 18, 12]"
  by (simp add: risk_column_def demo_scores demo_threshold np_round_sample)

lemma demo_run:
  "detect_fraud demo_grow 0 demo_heap 0 =
     (demo_heap(0 := \<lparr>index_len = 5, columns =
        [(''account'', Object [''a1'', ''a2'', ''a3'', ''a4'', ''a5'']),
         (''amount'', Int64 [12, 15, 11, 14, 5000]),
         (''Risk Score'', Float64 [Finite (- 18), Finite (- 18), Finite (- 18), Finite (- 18),
                                   Finite 12]),
         (''Severity'', Categorical [None, None, None, None, Some ''Low'']),
         (''Status'', Object [Normal, Normal, Normal, Normal, Suspicious])]\<rparr>), Inr 0)"
proof -
  have frame: "demo_heap 0 = demo_frame" by (simp add: demo_heap_def)
  have "detect_fraud demo_grow 0 demo_heap 0
      = (demo_heap(0 := annotated demo_grow 0 (demo_heap 0)), Inr 0)"
    by (rule detect_fraud_succeeds)
      (simp_all add: frame demo_frame_def select_dtypes_number_def is_number_def)
  moreover have "annotated demo_grow 0 demo_frame = \<lparr>index_len = 5, columns =
        [(''account'', Object [''a1'', ''a2'', ''a3'', ''a4'', ''a5'']),
         (''amount'', Int64 [12, 15, 11, 14, 5000]),
         (''Risk Score'', Float64 [Finite (- 18), Finite (- 18), Finite (- 18), Finite (- 18),
                                   Finite 12]),
         (''Severity'', Categorical [None, None, None, None, Some ''Low'']),
         (''Status'', Object [Normal, Normal, Normal, Normal, Suspicious])]\<rparr>"
    by (simp add: annotated_def severity_column_def status_column_def demo_risk demo_scores
        demo_threshold)
      (simp add: demo_frame_def)
  ultimately show ?thesis by (simp add: frame)
qed

text \<open>The results are computed from the numeric columns and the row count alone.\<close>

lemma index_len_select: "index_len (select_dtypes_number df) = index_len df"
  by (simp add: select_dtypes_number_def)

lemma scores_numeric_only:
  assumes "select_dtypes_number df = select_dtypes_number df'"
  shows "anomaly_scores grow g df = anomaly_scores grow g df'"
    and "threshold grow g df = threshold grow g df'"
    and "risk_column grow g df = risk_column grow g df'"
    and "severity_column grow g df = severity_column grow g df'"
    and "status_column grow g df = status_column grow g df'"
proof -
  show a: "anomaly_scores grow g df = anomaly_scores grow g df'"
    using assms by (simp add: anomaly_scores_def)
  then show t: "threshold grow g df = threshold grow g df'"
    by (simp add: threshold_def)
  from a t show c: "risk_column grow g df = risk_column grow g df'"
    by (simp add: risk_column_def)
  then show "severity_column grow g df = severity_column grow g df'"
    by (simp add: severity_column_def)
  from a t show "status_column grow g df = status_column grow g df'"
    by (simp add: status_column_def)
qed

text \<open>The scores without a tier.\<close>

lemma cut_label_None_iff:
  "cut_label [- 1, 30, 60, 9999] [''Low'', ''Medium'', ''High''] x = None
     \<longleftrightarrow> x \<le> - 1 \<or> 9999 < x"
  by auto

text \<open>
  Counting the rows beyond the threshold. With a thousand rows the percentile at 10 sits
  at position 99.9 of the sorted opposite scores, nine tenths of the way from the 100th to
  the 101st most anomalous score.
\<close>

lemma length_filter_sort: "length (filter P (sort xs)) = length (filter P xs)"
proof -
  have "mset (filter P (sort xs)) = mset (filter P xs)" by simp
  then show ?thesis by (metis size_mset)
qed

lemma count_below_sorted:
  fixes a :: "real list"
  assumes "sorted a" and "Suc k < length a" and "a ! k < v" and "v < a ! Suc k"
  shows "length (filter (\<lambda>x. x < v) a) = Suc k"
proof -
  have lo: "\<forall>x \<in> set (take (Suc k) a). x < v"
  proof
    fix x assume "x \<in> set (take (Suc k) a)"
    then obtain i where i: "i < Suc k" "x = a ! i"
      using assms(2) by (auto simp: in_set_conv_nth)
    then have "a ! i \<le> a ! k" using assms(1,2) by (intro sorted_nth_mono) auto
    with i assms(3) show "x < v" by simp
  qed
  have hi: "\<forall>x \<in> set (drop (Suc k) a). \<not> x < v"
  proof
    fix x assume "x \<in> set (drop (Suc k) a)"
    then obtain i where i: "i < length a - Suc k" "x = a ! (Suc k + i)"
      by (auto simp: in_set_conv_nth)
    then have "a ! Suc k \<le> a ! (Suc k + i)" using assms(1,2) by (intro sorted_nth_mono) auto
    with i assms(4) show "\<not> x < v" by simp
  qed
  have "filter (\<lambda>x. x < v) a
      = filter (\<lambda>x. x < v) (take (Suc k) a) @ filter (\<lambda>x. x < v) (drop (Suc k) a)"
    by (metis append_take_drop_id filter_append)
  also have "filter (\<lambda>x. x < v) (take (Suc k) a) = take (Suc k) a"
    using lo by (simp add: filter_id_conv)
  also have "filter (\<lambda>x. x < v) (drop (Suc k) a) = []"
    using hi by (simp add: filter_empty_conv)
  finally show ?thesis using assms(2) by simp
qed

lemma sort_uminus:
  fixes xs :: "real list"
  shows "sort (map uminus xs) = map uminus (rev (sort xs))"
proof (rule properties_for_sort)
  show "mset (map uminus (rev (sort xs))) = mset (map uminus xs)" by simp
  have "sorted (sort xs)" by simp
  then show "sorted (map uminus (rev (sort xs)))"
    by (simp add: sorted_wrt_map sorted_wrt_rev)
qed

lemma lerp_between:
  fixes x y :: real
  assumes "x < y"
  shows "x < x + 9 / 10 * (y - x)" and "x + 9 / 10 * (y - x) < y"
  using assms by (simp_all add: field_simps)

lemma threshold_1000:
  assumes "index_len df = 1000"
  shows "threshold grow g df =
    ranked grow g df ! 99 - 9 / 10 * (ranked grow g df ! 99 - ranked grow g df ! 100)"
proof -
  have "\<lfloor>10 / 100 * real (1000 - 1)\<rfloor> = (99::int)" by simp
  then show ?thesis
    using assms
    by (simp add: threshold_def percentile_def Let_def length_anomaly_scores sort_uminus
        ranked_def algebra_simps)
qed

lemma suspicious_1000:
  assumes n: "index_len df = 1000"
    and gap: "ranked grow g df ! 100 < ranked grow g df ! 99"
  shows "length (filter (\<lambda>s. threshold grow g df < s) (anomaly_scores grow g df)) = 100"
proof -
  let ?s = "anomaly_scores grow g df"
  let ?a = "sort (map uminus ?s)"
  let ?v = "- threshold grow g df"
  have len: "length ?a = 1000" using n by (simp add: length_anomaly_scores)
  have a: "?a ! 99 = - (ranked grow g df ! 99)" "?a ! 100 = - (ranked grow g df ! 100)"
    using len by (simp_all add: sort_uminus ranked_def)
  have th: "?v = ?a ! 99 + 9 / 10 * (?a ! 100 - ?a ! 99)"
    by (simp add: threshold_1000[OF n] a algebra_simps)
  have lt: "?a ! 99 < ?a ! 100" using gap by (simp add: a)
  have "length (filter (\<lambda>x. x < ?v) ?a) = Suc 99"
  proof (rule count_below_sorted)
    show "sorted ?a" by simp
    show "Suc 99 < length ?a" using len by simp
    show "?a ! 99 < ?v" unfolding th using lt by (rule lerp_between)
    show "?v < ?a ! Suc 99" unfolding th using lerp_between(2)[OF lt] by simp
  qed
  then have "length (filter (\<lambda>x. x < ?v) (map uminus ?s)) = 100"
    by (simp add: length_filter_sort)
  moreover have "filter (\<lambda>x. x < ?v) (map uminus ?s)
      = map uminus (filter (\<lambda>s. threshold grow g df < s) ?s)"
    by (simp add: filter_map o_def)
  ultimately show ?thesis by simp
qed

lemma count_status_column:
  "length (filter (\<lambda>s. s = Suspicious) (status_column grow g df))
     = length (filter (\<lambda>s. threshold grow g df < s) (anomaly_scores grow g df))"
proof -
  have "filter (\<lambda>s. s = Suspicious) (status_column grow g df)
      = map (\<lambda>s. if threshold grow g df < s then Suspicious else Normal)
          (filter (\<lambda>s. threshold grow g df < s) (anomaly_scores grow g df))"
    unfolding status_column_def filter_map o_def
    using labels_differ by (auto intro!: arg_cong[where f = "map _"] filter_cong)
  then show ?thesis by simp
qed

text \<open>The thousand-row sample: the scores are all different, row \<open>i\<close> scoring \<open>(i + 1) / 1001\<close>.\<close>

lemma big_scores:
  "anomaly_scores big_grow g big_frame = map (\<lambda>i. (real i + 1) / 1001) [0..<1000]"
proof -
  have sel: "select_dtypes_number big_frame = big_frame"
    by (simp add: select_dtypes_number_def big_frame_def is_number_def)
  have "rows_of big_frame = map (\<lambda>i. [Finite (real i)]) [0..<1000]"
    by (simp add: rows_of_def big_frame_def col_values_def)
  then show ?thesis
    by (simp add: anomaly_scores_def sel big_grow_def o_def)
qed

lemma big_ranked:
  "ranked big_grow g big_frame ! 99 = 901 / 1001"
  "ranked big_grow g big_frame ! 100 = 900 / 1001"
proof -
  have "sorted (map (\<lambda>i. (real i + 1) / 1001) [0..<1000])"
    by (simp add: sorted_iff_nth_mono divide_right_mono)
  then have "sort (anomaly_scores big_grow g big_frame) = map (\<lambda>i. (real i + 1) / 1001) [0..<1000]"
    by (simp add: big_scores sorted_sort_id)
  then show "ranked big_grow g big_frame ! 99 = 901 / 1001"
    and "ranked big_grow g big_frame ! 100 = 900 / 1001"
    by (simp_all add: ranked_def rev_nth)
qed

section \<open>Claims\<close>

text \<open>
  C7. A frame with zero rows, or with no numeric column, is rejected at once: the
  estimator's input validation raises before any column is assigned, so the call ends with
  the exception and the heap, the caller's frame included, is what it was. The exception
  is Python's \<open>ValueError\<close>, the form the specification's \<open>InvalidConfiguration\<close> takes in
  this program.
\<close>

theorem empty_input_rejected:
  assumes "index_len (h df) = 0 \<or> columns (select_dtypes_number (h df)) = []"
  shows "detect_fraud grow g h df = (h, Inl ValueError)"
  using assms by (rule detect_fraud_fails)

theorem empty_input_rejected_witness:
  "columns (select_dtypes_number (demo_heap 2)) = []
   \<and> index_len (demo_heap 3) = 0
   \<and> detect_fraud demo_grow 0 demo_heap 2 = (demo_heap, Inl ValueError)
   \<and> detect_fraud demo_grow 0 demo_heap 3 = (demo_heap, Inl ValueError)"
proof -
  have a: "columns (select_dtypes_number (demo_heap 2)) = []"
    by (simp add: demo_heap_def text_frame_def select_dtypes_number_def is_number_def)
  have b: "index_len (demo_heap 3) = 0"
    by (simp add: demo_heap_def)
  show ?thesis
    using a b empty_input_rejected[of demo_heap 2 demo_grow 0]
      empty_input_rejected[of demo_heap 3 demo_grow 0]
    by simp
qed

text \<open>
  C10. After a successful call the \<open>Status\<close> column holds one label for every input row,
  and each label is one of the two strings of the source, with their emoji prefixes: a red
  circle and \<open>Suspicious\<close>, or a green circle and \<open>Normal\<close>. The two strings differ, so the
  two counters of the dashboard add up to the number of rows.
\<close>

theorem status_total_binary:
  assumes "detect_fraud grow g h df = (h', Inr r)"
  shows "\<exists>st a b. getitem (h' r) ''Status'' = Inr (Object st)
      \<and> length st = index_len (h df)
      \<and> (\<forall>i < length st. st ! i = Suspicious \<or> st ! i = Normal)
      \<and> Suspicious = [CHR 0xF0, CHR 0x9F, CHR 0x94, CHR 0xB4] @ '' Suspicious''
      \<and> Normal = [CHR 0xF0, CHR 0x9F, CHR 0x9F, CHR 0xA2] @ '' Normal''
      \<and> Suspicious \<noteq> Normal
      \<and> count_status (h' r) Suspicious = Inr a
      \<and> count_status (h' r) Normal = Inr b
      \<and> a + b = index_len (h df)"
proof -
  let ?st = "status_column grow g (h df)"
  from detect_fraud_returns[OF assms]
  have r: "r = df" and h': "h' = h(df := annotated grow g (h df))" by simp_all
  have get: "getitem (h' r) ''Status'' = Inr (Object ?st)"
    by (simp add: r h' getitem_annotated)
  have two: "\<forall>x \<in> set ?st. x = Suspicious \<or> x = Normal"
    by (auto simp: status_column_def)
  then have nth: "\<forall>i < length ?st. ?st ! i = Suspicious \<or> ?st ! i = Normal"
    by simp
  have sum: "length (filter (\<lambda>s. s = Suspicious) ?st) + length (filter (\<lambda>s. s = Normal) ?st)
      = index_len (h df)"
    using two_label_count[OF two labels_differ] by (simp add: length_result_columns)
  show ?thesis
    using get nth sum labels_differ
    by (intro exI[of _ ?st] exI[of _ "length (filter (\<lambda>s. s = Suspicious) ?st)"]
        exI[of _ "length (filter (\<lambda>s. s = Normal) ?st)"])
      (simp add: count_status_def length_result_columns Suspicious_def Normal_def)
qed

theorem status_total_binary_witness:
  "detect_fraud demo_grow 0 demo_heap 0 = (fst (detect_fraud demo_grow 0 demo_heap 0), Inr 0)
   \<and> count_status (fst (detect_fraud demo_grow 0 demo_heap 0) 0) Suspicious = Inr 1
   \<and> count_status (fst (detect_fraud demo_grow 0 demo_heap 0) 0) Normal = Inr 4
   \<and> (\<exists>st a b. getitem (fst (detect_fraud demo_grow 0 demo_heap 0) 0) ''Status'' = Inr (Object st)
        \<and> length st = 5
        \<and> count_status (fst (detect_fraud demo_grow 0 demo_heap 0) 0) Suspicious = Inr a
        \<and> count_status (fst (detect_fraud demo_grow 0 demo_heap 0) 0) Normal = Inr b
        \<and> a + b = 5)"
proof -
  have run: "detect_fraud demo_grow 0 demo_heap 0
      = (fst (detect_fraud demo_grow 0 demo_heap 0), Inr 0)"
    by (simp add: demo_run)
  have n: "index_len (demo_heap 0) = 5"
    by (simp add: demo_heap_def demo_frame_def)
  have counts: "count_status (fst (detect_fraud demo_grow 0 demo_heap 0) 0) Suspicious = Inr 1"
    "count_status (fst (detect_fraud demo_grow 0 demo_heap 0) 0) Normal = Inr 4"
    using labels_differ by (auto simp: demo_run count_status_def getitem_def)
  from status_total_binary[OF run] n
  have "\<exists>st a b. getitem (fst (detect_fraud demo_grow 0 demo_heap 0) 0) ''Status'' = Inr (Object st)
        \<and> length st = 5
        \<and> count_status (fst (detect_fraud demo_grow 0 demo_heap 0) 0) Suspicious = Inr a
        \<and> count_status (fst (detect_fraud demo_grow 0 demo_heap 0) 0) Normal = Inr b
        \<and> a + b = 5"
    by (elim exE conjE) (intro exI conjI, simp_all)
  with run counts show ?thesis by blast
qed

text \<open>
  C1. The three tiers are meant to cover every risk score, with \<open>Low\<close> for all scores up
  to 30. The code misses that: the lowest bin edge is \<open>-1\<close>, and the risk score is the
  decision value times \<open>-100\<close>, so the rows the estimator finds normal get negative risk
  scores. On the five-row sample the four everyday rows have the risk score -18, which is
  below 30, and they are left without a tier; only the large row, with 12, is \<open>Low\<close>.
\<close>

theorem severity_missing_below_minus_one:
  "getitem (fst (detect_fraud demo_grow 0 demo_heap 0) 0) ''Risk Score''
     = Inr (Float64 [Finite (- 18), Finite (- 18), Finite (- 18), Finite (- 18), Finite 12])
   \<and> getitem (fst (detect_fraud demo_grow 0 demo_heap 0) 0) ''Severity''
     = Inr (Categorical [None, None, None, None, Some ''Low''])
   \<and> (- 18 :: real) \<le> 30 \<and> None \<noteq> Some ''Low''"
  by (simp add: demo_run getitem_def)




text \<open>
  C5, as the code has it. The function assigns to the frame it was given: after a
  successful call the caller's object holds the columns \<open>Risk Score\<close>, \<open>Severity\<close> and
  \<open>Status\<close>, one value per row, and the reference returned is the argument. Everything
  else is as before: the other columns with their values and order, the number of rows,
  and every other object. When the call raises, nothing at all has changed.
\<close>

theorem dataset_updated_in_place:
  assumes "detect_fraud grow g h df = (h', res)"
  shows "(\<forall>r. r \<noteq> df \<longrightarrow> h' r = h r)
    \<and> index_len (h' df) = index_len (h df)
    \<and> filter (\<lambda>kc. fst kc \<notin> {''Risk Score'', ''Severity'', ''Status''}) (columns (h' df))
      = filter (\<lambda>kc. fst kc \<notin> {''Risk Score'', ''Severity'', ''Status''}) (columns (h df))
    \<and> (\<forall>e. res = Inl e \<longrightarrow> h' = h)
    \<and> (\<forall>r. res = Inr r \<longrightarrow> r = df
          \<and> (\<exists>risk sev st. getitem (h' df) ''Risk Score'' = Inr (Float64 risk)
                \<and> getitem (h' df) ''Severity'' = Inr (Categorical sev)
                \<and> getitem (h' df) ''Status'' = Inr (Object st)
                \<and> length risk = index_len (h df) \<and> length sev = index_len (h df)
                \<and> length st = index_len (h df)))"
proof (cases "index_len (h df) = 0 \<or> columns (select_dtypes_number (h df)) = []")
  case True
  then have "detect_fraud grow g h df = (h, Inl ValueError)" by (rule detect_fraud_fails)
  with assms have "h' = h" and "res = Inl ValueError" by simp_all
  then show ?thesis by simp
next
  case False
  then have "detect_fraud grow g h df = (h(df := annotated grow g (h df)), Inr df)"
    by (simp add: detect_fraud_succeeds)
  with assms have h': "h' = h(df := annotated grow g (h df))" and res: "res = Inr df"
    by simp_all
  have others: "filter (\<lambda>kc. fst kc \<notin> {''Risk Score'', ''Severity'', ''Status''})
        (columns (annotated grow g (h df)))
      = filter (\<lambda>kc. fst kc \<notin> {''Risk Score'', ''Severity'', ''Status''}) (columns (h df))"
    unfolding annotated_def
    by (simp add: filter_setitem_cols)
  have len: "index_len (annotated grow g (h df)) = index_len (h df)"
    by (simp add: annotated_def)
  show ?thesis
    unfolding h' res
    using others len
    by (simp add: getitem_annotated length_result_columns)
qed

theorem dataset_updated_in_place_witness:
  "fst (detect_fraud demo_grow 0 demo_heap 0) 1 = demo_heap 1
   \<and> index_len (fst (detect_fraud demo_grow 0 demo_heap 0) 0) = 5
   \<and> filter (\<lambda>kc. fst kc \<notin> {''Risk Score'', ''Severity'', ''Status''})
        (columns (fst (detect_fraud demo_grow 0 demo_heap 0) 0))
      = [(''account'', Object [''a1'', ''a2'', ''a3'', ''a4'', ''a5'']),
         (''amount'', Int64 [12, 15, 11, 14, 5000])]
   \<and> snd (detect_fraud demo_grow 0 demo_heap 0) = Inr 0
   \<and> fst (detect_fraud demo_grow 0 demo_heap 2) = demo_heap"
proof -
  have frame: "demo_heap 0 = demo_frame" by (simp add: demo_heap_def)
  have bad: "detect_fraud demo_grow 0 demo_heap 2 = (demo_heap, Inl ValueError)"
    by (rule detect_fraud_fails)
      (simp add: demo_heap_def text_frame_def select_dtypes_number_def is_number_def)
  have "fst (detect_fraud demo_grow 0 demo_heap 2) = demo_heap"
    using dataset_updated_in_place[of demo_grow 0 demo_heap 2 _ _, OF prod.collapse[symmetric]]
    by (simp add: bad)
  moreover have "snd (detect_fraud demo_grow 0 demo_heap 0) = Inr 0"
    by (simp add: demo_run)
  ultimately show ?thesis
    using dataset_updated_in_place[of demo_grow 0 demo_heap 0 _ _, OF prod.collapse[symmetric]]
    by (simp add: frame demo_frame_def)
qed

text \<open>
  C5 as the specification words it, the dataset is never mutated, fails: the caller's
  five-row sample holds two columns before the call and five after it.
\<close>

theorem dataset_unchanged_counterexample:
  "map fst (columns (demo_heap 0)) = [''account'', ''amount'']
   \<and> map fst (columns (fst (detect_fraud demo_grow 0 demo_heap 0) 0))
     = [''account'', ''amount'', ''Risk Score'', ''Severity'', ''Status'']
   \<and> fst (detect_fraud demo_grow 0 demo_heap 0) 0 \<noteq> demo_heap 0"
proof -
  have frame: "demo_heap 0 = demo_frame" by (simp add: demo_heap_def)
  show ?thesis by (simp add: demo_run frame demo_frame_def)
qed

text \<open>
  C8. Only the numeric columns reach the estimator. Two frames with the same numeric
  columns and the same number of rows, whatever their other columns hold, are treated
  alike under the same generator state: either both calls are rejected, or both succeed
  and store the same \<open>Risk Score\<close>, \<open>Severity\<close> and \<open>Status\<close> columns.
\<close>

theorem non_numeric_columns_ignored:
  assumes "select_dtypes_number (h1 r1) = select_dtypes_number (h2 r2)"
  shows "(detect_fraud grow g h1 r1 = (h1, Inl ValueError)
          \<and> detect_fraud grow g h2 r2 = (h2, Inl ValueError))
      \<or> (snd (detect_fraud grow g h1 r1) = Inr r1 \<and> snd (detect_fraud grow g h2 r2) = Inr r2
          \<and> (\<exists>risk sev st.
                getitem (fst (detect_fraud grow g h1 r1) r1) ''Risk Score'' = Inr (Float64 risk)
              \<and> getitem (fst (detect_fraud grow g h2 r2) r2) ''Risk Score'' = Inr (Float64 risk)
              \<and> getitem (fst (detect_fraud grow g h1 r1) r1) ''Severity'' = Inr (Categorical sev)
              \<and> getitem (fst (detect_fraud grow g h2 r2) r2) ''Severity'' = Inr (Categorical sev)
              \<and> getitem (fst (detect_fraud grow g h1 r1) r1) ''Status'' = Inr (Object st)
              \<and> getitem (fst (detect_fraud grow g h2 r2) r2) ''Status'' = Inr (Object st)))"
proof (cases "index_len (h1 r1) = 0 \<or> columns (select_dtypes_number (h1 r1)) = []")
  case True
  moreover have "index_len (h2 r2) = index_len (h1 r1)"
    using assms by (metis index_len_select)
  ultimately have "index_len (h2 r2) = 0 \<or> columns (select_dtypes_number (h2 r2)) = []"
    using assms by simp
  with True show ?thesis by (simp add: detect_fraud_fails)
next
  case False
  moreover have "index_len (h2 r2) = index_len (h1 r1)"
    using assms by (metis index_len_select)
  ultimately have ok2: "index_len (h2 r2) \<noteq> 0" "columns (select_dtypes_number (h2 r2)) \<noteq> []"
    using assms by simp_all
  from False have ok1: "index_len (h1 r1) \<noteq> 0" "columns (select_dtypes_number (h1 r1)) \<noteq> []"
    by simp_all
  show ?thesis
    by (rule disjI2)
      (simp add: detect_fraud_succeeds[of h1 r1, OF ok1] detect_fraud_succeeds[of h2 r2, OF ok2]
        getitem_annotated scores_numeric_only[of "h1 r1" "h2 r2", OF assms])
qed

theorem non_numeric_columns_ignored_witness:
  "select_dtypes_number (demo_heap 0) = select_dtypes_number (demo_heap 1)
   \<and> demo_heap 0 \<noteq> demo_heap 1
   \<and> getitem (fst (detect_fraud demo_grow 0 demo_heap 1) 1) ''Risk Score''
     = Inr (Float64 [Finite (- 18), Finite (- 18), Finite (- 18), Finite (- 18), Finite 12])
   \<and> getitem (fst (detect_fraud demo_grow 0 demo_heap 1) 1) ''Severity''
     = Inr (Categorical [None, None, None, None, Some ''Low''])
   \<and> getitem (fst (detect_fraud demo_grow 0 demo_heap 1) 1) ''Status''
     = Inr (Object [Normal, Normal, Normal, Normal, Suspicious])"
proof -
  have same: "select_dtypes_number (demo_heap 0) = select_dtypes_number (demo_heap 1)"
    by (simp add: demo_heap_def demo_frame_def demo_frame'_def select_dtypes_number_def
        is_number_def)
  have differ: "demo_heap 0 \<noteq> demo_heap 1"
    by (simp add: demo_heap_def demo_frame_def demo_frame'_def)
  show ?thesis
    using same differ non_numeric_columns_ignored[of demo_heap 0 demo_heap 1 demo_grow 0, OF same]
    by (auto simp: demo_run getitem_def)
qed

text \<open>
  C3. A row is labelled suspicious exactly when its normalised anomaly score exceeds the
  threshold the estimator derived from the scores of the dataset for
  \<open>contamination = 0.1\<close>, and normal otherwise. With a thousand rows, when the 100th and
  the 101st most anomalous scores differ (no tie at the threshold), exactly 100 rows are
  labelled suspicious. The labels are the two strings of the source, which stand for the
  specification's \<open>Suspicious\<close> and \<open>Normal\<close>.
\<close>

theorem status_threshold_rule:
  assumes "detect_fraud grow g h df = (h', Inr r)"
  shows "\<exists>st. getitem (h' r) ''Status'' = Inr (Object st)
      \<and> length st = index_len (h df)
      \<and> (\<forall>i < index_len (h df).
            (st ! i = Suspicious \<longleftrightarrow> threshold grow g (h df) < anomaly_scores grow g (h df) ! i)
          \<and> (st ! i = Normal \<longleftrightarrow> \<not> threshold grow g (h df) < anomaly_scores grow g (h df) ! i))
      \<and> (index_len (h df) = 1000
          \<and> ranked grow g (h df) ! 100 < ranked grow g (h df) ! 99
          \<longrightarrow> count_status (h' r) Suspicious = Inr 100)"
proof -
  let ?st = "status_column grow g (h df)"
  from detect_fraud_returns[OF assms]
  have r: "r = df" and h': "h' = h(df := annotated grow g (h df))" by simp_all
  have get: "getitem (h' r) ''Status'' = Inr (Object ?st)"
    by (simp add: r h' getitem_annotated)
  have rule: "\<forall>i < index_len (h df).
            (?st ! i = Suspicious \<longleftrightarrow> threshold grow g (h df) < anomaly_scores grow g (h df) ! i)
          \<and> (?st ! i = Normal \<longleftrightarrow> \<not> threshold grow g (h df) < anomaly_scores grow g (h df) ! i)"
    using labels_differ by (auto simp: status_column_def length_anomaly_scores)
  have count: "count_status (h' r) Suspicious = Inr 100"
    if "index_len (h df) = 1000" and "ranked grow g (h df) ! 100 < ranked grow g (h df) ! 99"
    using suspicious_1000[OF that] by (simp add: count_status_def get count_status_column)
  show ?thesis
    using get rule count by (intro exI[of _ ?st]) (simp add: length_result_columns)
qed

theorem status_threshold_rule_witness:
  "detect_fraud big_grow 0 big_heap 0 = (fst (detect_fraud big_grow 0 big_heap 0), Inr 0)
   \<and> index_len (big_heap 0) = 1000
   \<and> ranked big_grow 0 (big_heap 0) ! 100 < ranked big_grow 0 (big_heap 0) ! 99
   \<and> count_status (fst (detect_fraud big_grow 0 big_heap 0) 0) Suspicious = Inr 100
   \<and> (\<exists>st. getitem (fst (detect_fraud big_grow 0 big_heap 0) 0) ''Status'' = Inr (Object st)
        \<and> st ! 999 = Suspicious \<and> st ! 0 = Normal)"
proof -
  have frame: "big_heap 0 = big_frame" by (simp add: big_heap_def)
  have n: "index_len (big_heap 0) = 1000" by (simp add: frame big_frame_def)
  have "detect_fraud big_grow 0 big_heap 0
      = (big_heap(0 := annotated big_grow 0 (big_heap 0)), Inr 0)"
    by (rule detect_fraud_succeeds)
      (simp_all add: frame big_frame_def select_dtypes_number_def is_number_def)
  then have run: "detect_fraud big_grow 0 big_heap 0
      = (fst (detect_fraud big_grow 0 big_heap 0), Inr 0)"
    by simp
  have gap: "ranked big_grow 0 (big_heap 0) ! 100 < ranked big_grow 0 (big_heap 0) ! 99"
    by (simp add: frame big_ranked)
  have th: "threshold big_grow 0 (big_heap 0) = 9001 / 10010"
    using threshold_1000[OF n, of big_grow 0] by (simp add: frame big_ranked)
  have s999: "anomaly_scores big_grow 0 (big_heap 0) ! 999 = 1000 / 1001"
    and s0: "anomaly_scores big_grow 0 (big_heap 0) ! 0 = 1 / 1001"
    by (simp_all add: frame big_scores)
  from status_threshold_rule[OF run] obtain st where
    get: "getitem (fst (detect_fraud big_grow 0 big_heap 0) 0) ''Status'' = Inr (Object st)"
    and rule: "\<forall>i < index_len (big_heap 0).
        (st ! i = Suspicious
           \<longleftrightarrow> threshold big_grow 0 (big_heap 0) < anomaly_scores big_grow 0 (big_heap 0) ! i)
      \<and> (st ! i = Normal
           \<longleftrightarrow> \<not> threshold big_grow 0 (big_heap 0) < anomaly_scores big_grow 0 (big_heap 0) ! i)"
    and count: "index_len (big_heap 0) = 1000
          \<and> ranked big_grow 0 (big_heap 0) ! 100 < ranked big_grow 0 (big_heap 0) ! 99
          \<longrightarrow> count_status (fst (detect_fraud big_grow 0 big_heap 0) 0) Suspicious = Inr 100"
    by blast
  from count n gap
  have hundred: "count_status (fst (detect_fraud big_grow 0 big_heap 0) 0) Suspicious = Inr 100"
    by blast
  from rule n have "st ! 999 = Suspicious
      \<longleftrightarrow> threshold big_grow 0 (big_heap 0) < anomaly_scores big_grow 0 (big_heap 0) ! 999"
    by simp
  then have top: "st ! 999 = Suspicious" by (simp add: th s999)
  from rule n have "st ! 0 = Normal
      \<longleftrightarrow> \<not> threshold big_grow 0 (big_heap 0) < anomaly_scores big_grow 0 (big_heap 0) ! 0"
    by simp
  then have bottom: "st ! 0 = Normal" by (simp add: th s0)
  from run n gap hundred get top bottom show ?thesis by blast
qed

text \<open>
  C9. The tiers do not cover the risk scores the function produces. After a successful
  call a row has no tier exactly when its risk score is at most -1 or above 9999. The risk
  score is the rounded opposite of a hundred times the decision value, so a row with a
  risk score below -1 has a positive decision value and is labelled normal. Such rows
  occur: on the five-row sample the four everyday rows have the risk score -18, the label
  normal and no tier.
\<close>

theorem severity_not_total:
  "(detect_fraud grow g h df = (h', Inr r) \<longrightarrow>
      (\<exists>risk sev st. getitem (h' r) ''Risk Score'' = Inr (Float64 (map Finite risk))
        \<and> getitem (h' r) ''Severity'' = Inr (Categorical sev)
        \<and> getitem (h' r) ''Status'' = Inr (Object st)
        \<and> (\<forall>i < index_len (h df).
              (risk ! i \<le> - 1 \<or> 9999 < risk ! i \<longrightarrow> sev ! i = None)
            \<and> (sev ! i = None \<longrightarrow> risk ! i \<le> - 1 \<or> 9999 < risk ! i)
            \<and> risk ! i = np_round
                  (fmul (threshold grow g (h df) - anomaly_scores grow g (h df) ! i) (- 100)) 2
            \<and> (risk ! i < - 1 \<longrightarrow>
                  0 < threshold grow g (h df) - anomaly_scores grow g (h df) ! i
                  \<and> st ! i = Normal))))
   \<and> getitem (fst (detect_fraud demo_grow 0 demo_heap 0) 0) ''Risk Score''
       = Inr (Float64 [Finite (- 18), Finite (- 18), Finite (- 18), Finite (- 18), Finite 12])
   \<and> getitem (fst (detect_fraud demo_grow 0 demo_heap 0) 0) ''Status''
       = Inr (Object [Normal, Normal, Normal, Normal, Suspicious])
   \<and> getitem (fst (detect_fraud demo_grow 0 demo_heap 0) 0) ''Severity''
       = Inr (Categorical [None, None, None, None, Some ''Low''])"
proof -
  have general: "\<exists>risk sev st. getitem (h' r) ''Risk Score'' = Inr (Float64 (map Finite risk))
        \<and> getitem (h' r) ''Severity'' = Inr (Categorical sev)
        \<and> getitem (h' r) ''Status'' = Inr (Object st)
        \<and> (\<forall>i < index_len (h df).
              (risk ! i \<le> - 1 \<or> 9999 < risk ! i \<longrightarrow> sev ! i = None)
            \<and> (sev ! i = None \<longrightarrow> risk ! i \<le> - 1 \<or> 9999 < risk ! i)
            \<and> risk ! i = np_round
                  (fmul (threshold grow g (h df) - anomaly_scores grow g (h df) ! i) (- 100)) 2
            \<and> (risk ! i < - 1 \<longrightarrow>
                  0 < threshold grow g (h df) - anomaly_scores grow g (h df) ! i
                  \<and> st ! i = Normal))"
    if run: "detect_fraud grow g h df = (h', Inr r)"
  proof -
    let ?risk = "risk_column grow g (h df)" and ?sev = "severity_column grow g (h df)"
    let ?st = "status_column grow g (h df)" and ?s = "anomaly_scores grow g (h df)"
    let ?t = "threshold grow g (h df)"
    from detect_fraud_returns[OF run]
    have r: "r = df" and h': "h' = h(df := annotated grow g (h df))" by simp_all
    have get: "getitem (h' r) ''Risk Score'' = Inr (Float64 (map Finite ?risk))"
      "getitem (h' r) ''Severity'' = Inr (Categorical ?sev)"
      "getitem (h' r) ''Status'' = Inr (Object ?st)"
      by (simp_all add: r h' getitem_annotated)
    have rows: "(?risk ! i \<le> - 1 \<or> 9999 < ?risk ! i \<longrightarrow> ?sev ! i = None)
            \<and> (?sev ! i = None \<longrightarrow> ?risk ! i \<le> - 1 \<or> 9999 < ?risk ! i)
            \<and> ?risk ! i = np_round (fmul (?t - ?s ! i) (- 100)) 2
            \<and> (?risk ! i < - 1 \<longrightarrow> 0 < ?t - ?s ! i \<and> ?st ! i = Normal)"
      if i: "i < index_len (h df)" for i
    proof -
      have risk_i: "?risk ! i = np_round (fmul (?t - ?s ! i) (- 100)) 2"
        using i by (simp add: risk_column_def length_anomaly_scores)
      have sev_i: "?sev ! i = cut_label [- 1, 30, 60, 9999] [''Low'', ''Medium'', ''High''] (?risk ! i)"
        using i by (simp add: severity_column_def length_result_columns)
      have st_i: "?st ! i = (if ?t < ?s ! i then Suspicious else Normal)"
        using i by (simp add: status_column_def length_anomaly_scores)
      have neg: "0 < ?t - ?s ! i" if "?risk ! i < - 1"
      proof (rule ccontr)
        assume "\<not> 0 < ?t - ?s ! i"
        then have "0 \<le> (?t - ?s ! i) * - 100" by (simp add: mult_nonpos_nonpos)
        then have "0 \<le> fmul (?t - ?s ! i) (- 100)" unfolding fmul_def by (rule fl_nonneg)
        then have "0 \<le> ?risk ! i" unfolding risk_i by (rule np_round_nonneg)
        with that show False by simp
      qed
      have "(?risk ! i \<le> - 1 \<or> 9999 < ?risk ! i \<longrightarrow> ?sev ! i = None)
            \<and> (?sev ! i = None \<longrightarrow> ?risk ! i \<le> - 1 \<or> 9999 < ?risk ! i)"
        unfolding sev_i cut_label_None_iff by blast
      moreover have "?risk ! i < - 1 \<longrightarrow> 0 < ?t - ?s ! i \<and> ?st ! i = Normal"
        using neg by (auto simp: st_i)
      ultimately show ?thesis using risk_i by blast
    qed
    from rows have "\<forall>i < index_len (h df).
              (?risk ! i \<le> - 1 \<or> 9999 < ?risk ! i \<longrightarrow> ?sev ! i = None)
            \<and> (?sev ! i = None \<longrightarrow> ?risk ! i \<le> - 1 \<or> 9999 < ?risk ! i)
            \<and> ?risk ! i = np_round (fmul (?t - ?s ! i) (- 100)) 2
            \<and> (?risk ! i < - 1 \<longrightarrow> 0 < ?t - ?s ! i \<and> ?st ! i = Normal)"
      by blast
    with get show ?thesis by blast
  qed
  have demo: "getitem (fst (detect_fraud demo_grow 0 demo_heap 0) 0) ''Risk Score''
       = Inr (Float64 [Finite (- 18), Finite (- 18), Finite (- 18), Finite (- 18), Finite 12])
   \<and> getitem (fst (detect_fraud demo_grow 0 demo_heap 0) 0) ''Status''
       = Inr (Object [Normal, Normal, Normal, Normal, Suspicious])
   \<and> getitem (fst (detect_fraud demo_grow 0 demo_heap 0) 0) ''Severity''
       = Inr (Categorical [None, None, None, None, Some ''Low''])"
    by (simp add: demo_run getitem_def)
  from general demo show ?thesis by blast
qed

theorem severity_not_total_witness:
  "detect_fraud demo_grow 0 demo_heap 0 = (fst (detect_fraud demo_grow 0 demo_heap 0), Inr 0)
   \<and> (\<exists>risk sev st.
        getitem (fst (detect_fraud demo_grow 0 demo_heap 0) 0) ''Risk Score''
          = Inr (Float64 (map Finite risk))
      \<and> getitem (fst (detect_fraud demo_grow 0 demo_heap 0) 0) ''Severity'' = Inr (Categorical sev)
      \<and> getitem (fst (detect_fraud demo_grow 0 demo_heap 0) 0) ''Status'' = Inr (Object st)
      \<and> risk ! 0 = - 18 \<and> sev ! 0 = None \<and> st ! 0 = Normal
      \<and> 0 < threshold demo_grow 0 (demo_heap 0) - anomaly_scores demo_grow 0 (demo_heap 0) ! 0)"
proof -
  have run: "detect_fraud demo_grow 0 demo_heap 0
      = (fst (detect_fraud demo_grow 0 demo_heap 0), Inr 0)"
    by (simp add: demo_run)
  have n: "0 < index_len (demo_heap 0)"
    by (simp add: demo_heap_def demo_frame_def)
  from severity_not_total[of demo_grow 0 demo_heap 0 "fst (detect_fraud demo_grow 0 demo_heap 0)" 0]
    run
  obtain risk sev st where
    a: "getitem (fst (detect_fraud demo_grow 0 demo_heap 0) 0) ''Risk Score''
          = Inr (Float64 (map Finite risk))"
    and b: "getitem (fst (detect_fraud demo_grow 0 demo_heap 0) 0) ''Severity'' = Inr (Categorical sev)"
    and c: "getitem (fst (detect_fraud demo_grow 0 demo_heap 0) 0) ''Status'' = Inr (Object st)"
    and rows: "\<forall>i < index_len (demo_heap 0).
              (risk ! i \<le> - 1 \<or> 9999 < risk ! i \<longrightarrow> sev ! i = None)
            \<and> (risk ! i < - 1 \<longrightarrow>
                  0 < threshold demo_grow 0 (demo_heap 0) - anomaly_scores demo_grow 0 (demo_heap 0) ! i
                  \<and> st ! i = Normal)"
    by blast
  from a have "map Finite risk = map Finite [- 18, - 18, - 18, - 18, 12]"
    by (simp add: demo_run getitem_def)
  then have "risk = [- 18, - 18, - 18, - 18, 12]"
    by (rule map_Finite_eq)
  then have risk0: "risk ! 0 = - 18"
    by simp
  from rows n have
    "(risk ! 0 \<le> - 1 \<or> 9999 < risk ! 0 \<longrightarrow> sev ! 0 = None)
     \<and> (risk ! 0 < - 1 \<longrightarrow>
          0 < threshold demo_grow 0 (demo_heap 0) - anomaly_scores demo_grow 0 (demo_heap 0) ! 0
          \<and> st ! 0 = Normal)"
    by blast
  with risk0 have "sev ! 0 = None" and "st ! 0 = Normal"
    and "0 < threshold demo_grow 0 (demo_heap 0) - anomaly_scores demo_grow 0 (demo_heap 0) ! 0"
    by simp_all
  with run a b c risk0 show ?thesis by blast
qed




end
